theory Spec2Isabelle
  imports Main
begin

section \<open>Python values\<close>

text \<open>
  The fields of the \<open>argparse.Namespace\<close> handed to \<open>main\<close> and the values that
  travel between the collaborators are dynamically typed. The model keeps the kinds of
  value the script can meet: \<open>None\<close>, booleans, unbounded integers, strings, tuples and
  lists. Floating-point values are not modelled.
\<close>

datatype pyval =
    PNone
  | PBool bool
  | PInt int
  | PStr string
  | PTuple "pyval list"
  | PList "pyval list"

text \<open>Python's truth value testing, as used by \<open>if x:\<close>, \<open>and\<close> and \<open>not\<close>.\<close>

fun truthy :: "pyval \<Rightarrow> bool" where
  "truthy PNone = False"
| "truthy (PBool b) = b"
| "truthy (PInt i) = (i \<noteq> 0)"
| "truthy (PStr s) = (s \<noteq> [])"
| "truthy (PTuple xs) = (xs \<noteq> [])"
| "truthy (PList xs) = (xs \<noteq> [])"

text \<open>\<open>x and y\<close> yields \<open>x\<close> when \<open>x\<close> is falsy and \<open>y\<close> otherwise; \<open>not x\<close> is a
  boolean.\<close>

definition py_and :: "pyval \<Rightarrow> pyval \<Rightarrow> pyval" where
  "py_and x y = (if truthy x then y else x)"

definition py_not :: "pyval \<Rightarrow> bool" where
  "py_not x = (\<not> truthy x)"

section \<open>Exceptions\<close>

text \<open>
  \<open>WrongNumberOfArguments\<close> is the script's own error; \<open>IndexError\<close>, \<open>TypeError\<close> and
  \<open>ValueError\<close> are raised by subscripting, unpacking and \<open>%\<close>-formatting;
  \<open>OtherException\<close> stands for any other instance of \<open>Exception\<close> that a collaborator
  raises. \<open>BaseOnly name status\<close> is an instance of \<open>BaseException\<close> that is not an
  \<open>Exception\<close> (\<open>KeyboardInterrupt\<close>, \<open>SystemExit\<close>), together with the exit status the
  interpreter reports when it reaches the top level.
\<close>

datatype exn =
    WrongNumberOfArguments string
  | IndexError
  | TypeError
  | ValueError
  | OtherException string
  | BaseOnly string nat

fun is_Exception :: "exn \<Rightarrow> bool" where
  "is_Exception (BaseOnly _ _) = False"
| "is_Exception _ = True"

section \<open>Subscripting, unpacking and formatting\<close>

text \<open>\<open>v[i]\<close> for a literal, non-negative index.\<close>

fun subscript :: "pyval \<Rightarrow> nat \<Rightarrow> exn + pyval" where
  "subscript (PTuple xs) i = (if i < length xs then Inr (xs ! i) else Inl IndexError)"
| "subscript (PList xs) i = (if i < length xs then Inr (xs ! i) else Inl IndexError)"
| "subscript (PStr s) i = (if i < length s then Inr (PStr [s ! i]) else Inl IndexError)"
| "subscript _ i = Inl TypeError"

text \<open>\<open>a, b, c = v\<close>: the right-hand side must be iterable (else \<open>TypeError\<close>) and
  yield exactly three items (else \<open>ValueError\<close>).\<close>

fun unpack3 :: "pyval \<Rightarrow> exn + (pyval \<times> pyval \<times> pyval)" where
  "unpack3 (PTuple xs) =
     (case xs of [a, b, c] \<Rightarrow> Inr (a, b, c) | _ \<Rightarrow> Inl ValueError)"
| "unpack3 (PList xs) =
     (case xs of [a, b, c] \<Rightarrow> Inr (a, b, c) | _ \<Rightarrow> Inl ValueError)"
| "unpack3 (PStr s) =
     (case s of [a, b, c] \<Rightarrow> Inr (PStr [a], PStr [b], PStr [c]) | _ \<Rightarrow> Inl ValueError)"
| "unpack3 _ = Inl TypeError"

definition digit_char :: "nat \<Rightarrow> char" where
  "digit_char d = ''0123456789'' ! d"

function show_nat :: "nat \<Rightarrow> string" where
  "show_nat n = (if n < 10 then [digit_char n] else show_nat (n div 10) @ [digit_char (n mod 10)])"
  by pat_completeness auto
termination
  by (relation "measure id") auto

declare show_nat.simps [simp del]

text \<open>\<open>"%d" % i\<close> and \<open>"%0wd" % i\<close>: the zeros go between the sign and the digits, and
  the sign counts towards the width.\<close>

definition fmt_d :: "int \<Rightarrow> string" where
  "fmt_d i = (if i < 0 then ''-'' else '''') @ show_nat (nat \<bar>i\<bar>)"

definition fmt_0d :: "nat \<Rightarrow> int \<Rightarrow> string" where
  "fmt_0d w i =
     (let sign = (if i < 0 then ''-'' else ''''); digits = show_nat (nat \<bar>i\<bar>)
      in sign @ replicate (w - length sign - length digits) (CHR ''0'') @ digits)"

text \<open>\<open>%d\<close> accepts integers and booleans; any other value of the model is a
  \<open>TypeError\<close>.\<close>

fun as_int :: "pyval \<Rightarrow> int option" where
  "as_int (PInt i) = Some i"
| "as_int (PBool b) = Some (if b then 1 else 0)"
| "as_int _ = None"

text \<open>\<open>"%d:%02d" % (hours, minutes)\<close>\<close>

definition fmt_runtime :: "pyval \<Rightarrow> pyval \<Rightarrow> exn + string" where
  "fmt_runtime hours minutes =
     (case as_int hours of
        None \<Rightarrow> Inl TypeError
      | Some h \<Rightarrow>
          (case as_int minutes of
             None \<Rightarrow> Inl TypeError
           | Some m \<Rightarrow> Inr (fmt_d h @ '':'' @ fmt_0d 2 m)))"

section \<open>Arguments, collaborators and the world\<close>

text \<open>The namespace returned by \<open>parser.parse_call_args()\<close>.\<close>

record args =
  scenario_id :: pyval
  start_date :: pyval
  end_date :: pyval
  interval :: pyval
  input_dir :: pyval
  output_dir :: pyval
  solver :: pyval
  threads :: pyval
  julia_env :: pyval
  extract_data :: pyval
  keep_matlab :: pyval

text \<open>A launcher object: the class chosen by \<open>get_launcher\<close> and the arguments its
  constructor received.\<close>

record launcher =
  launcher_class :: string
  l_start_date :: pyval
  l_end_date :: pyval
  l_interval :: pyval
  l_input_dir :: pyval
  l_threads :: pyval
  l_julia_env :: pyval

text \<open>
  The modules \<open>const\<close>, \<open>helpers\<close>, \<open>converters\<close>, \<open>launchers\<close> and \<open>extract_data\<close> are
  not part of the source under study. Their constants and functions are parameters of
  the model: each function may return a value or raise.
\<close>

record env =
  EXECUTE_LIST :: string
  SCENARIO_LIST :: string
  OUTPUT_DIR :: pyval
  get_scenario :: "pyval \<Rightarrow> exn + pyval"
  sec2hms :: "pyval \<Rightarrow> exn + pyval"
  pkl_to_csv :: "pyval \<Rightarrow> exn + unit"
  get_launcher :: "pyval \<Rightarrow> exn + string"
  new_launcher :: "launcher \<Rightarrow> exn option"
  launch_scenario :: "launcher \<Rightarrow> exn + pyval"
  extract_scenario :: "pyval \<Rightarrow> pyval \<Rightarrow> pyval \<Rightarrow> pyval \<Rightarrow> pyval \<Rightarrow> pyval \<Rightarrow> exn + unit"

text \<open>Every call that leaves the script is logged, in order.\<close>

datatype call =
    CGetScenario pyval
  | CPklToCsv pyval
  | CInsertInFile string pyval string string
  | CGetLauncher pyval
  | CNewLauncher launcher
  | CLaunchScenario launcher
  | CSec2hms pyval
  | CExtractScenario pyval pyval pyval pyval pyval pyval
  | CPrint exn

text \<open>
  The state threaded through the script: the namespace (mutated in place by \<open>main\<close>),
  the tracking store, addressed by file name, scenario id and column, and the log of
  calls.
\<close>

record state =
  ns :: args
  files :: "string \<times> pyval \<times> string \<Rightarrow> string option"
  calls :: "call list"

type_synonym 'a prog = "state \<Rightarrow> (exn + 'a) \<times> state"

definition bind_p :: "'a prog \<Rightarrow> ('a \<Rightarrow> 'b prog) \<Rightarrow> 'b prog" where
  "bind_p m f s = (case m s of (Inl e, s') \<Rightarrow> (Inl e, s') | (Inr x, s') \<Rightarrow> f x s')"

definition seq_p :: "unit prog \<Rightarrow> 'b prog \<Rightarrow> 'b prog" where
  "seq_p m n = bind_p m (\<lambda>_. n)"

text \<open>A pure operation that may raise.\<close>

definition lift_p :: "exn + 'a \<Rightarrow> 'a prog" where
  "lift_p r s = (r, s)"

text \<open>A call to a collaborator: logged, then it returns or raises.\<close>

definition call_p :: "call \<Rightarrow> exn + 'a \<Rightarrow> 'a prog" where
  "call_p c r s = (r, s\<lparr>calls := calls s @ [c]\<rparr>)"

text \<open>\<open>if <field>: body\<close> on the namespace.\<close>

definition when_p :: "(args \<Rightarrow> pyval) \<Rightarrow> unit prog \<Rightarrow> unit prog" where
  "when_p field body s = (if truthy (field (ns s)) then body s else (Inr (), s))"

definition assign :: "(args \<Rightarrow> args) \<Rightarrow> unit prog" where
  "assign upd s = (Inr (), s\<lparr>ns := upd (ns s)\<rparr>)"

text \<open>
  Modelled from the spec: \<open>helpers.insert_in_file\<close> is not in the source under study.
  The spec describes the two tracking files as flat files addressed by scenario id with
  column-style updates, last writer wins: the call sets the entry of the file, scenario
  id and column to the value and changes no other entry.
\<close>

definition insert_in_file :: "string \<Rightarrow> pyval \<Rightarrow> string \<Rightarrow> string \<Rightarrow> unit prog" where
  "insert_in_file filename sid column_name column_value s =
     (Inr (), s\<lparr>files := (files s)((filename, sid, column_name) \<mapsto> column_value),
                calls := calls s @ [CInsertInFile filename sid column_name column_value]\<rparr>)"

section \<open>The script\<close>

text \<open>\<open>_record_scenario(scenario_id, runtime)\<close>\<close>

definition record_scenario :: "env \<Rightarrow> pyval \<Rightarrow> pyval \<Rightarrow> unit prog" where
  "record_scenario env sid runtime =
     seq_p (insert_in_file (EXECUTE_LIST env) sid ''status'' ''finished'')
       (bind_p (call_p (CSec2hms runtime) (sec2hms env runtime)) (\<lambda>hms.
        bind_p (lift_p (unpack3 hms)) (\<lambda>(hours, minutes, _).
        bind_p (lift_p (fmt_runtime hours minutes)) (\<lambda>text.
        insert_in_file (SCENARIO_LIST env) sid ''runtime'' text))))"

definition err_str :: string where
  "err_str = ''The following arguments are required: '' @
             ''start-date, end-date, interval, input-dir''"

text \<open>\<open>_ensure_required_args(args)\<close>\<close>

definition ensure_required_args :: "args \<Rightarrow> exn + unit" where
  "ensure_required_args a =
     (if py_not (py_and (py_and (py_and (start_date a) (end_date a)) (interval a)) (input_dir a))
      then Inl (WrongNumberOfArguments err_str)
      else Inr ())"

text \<open>The blocks of \<open>main\<close>, in source order. Lines 44 to 50: scenario resolution.\<close>

definition main_resolve :: "env \<Rightarrow> unit prog" where
  "main_resolve env =
     when_p scenario_id (\<lambda>s.
       bind_p (call_p (CGetScenario (scenario_id (ns s))) (get_scenario env (scenario_id (ns s))))
         (\<lambda>scenario_args.
          seq_p (bind_p (lift_p (subscript scenario_args 0)) (\<lambda>v. assign (start_date_update (\<lambda>_. v))))
         (seq_p (bind_p (lift_p (subscript scenario_args 1)) (\<lambda>v. assign (end_date_update (\<lambda>_. v))))
         (seq_p (bind_p (lift_p (subscript scenario_args 2)) (\<lambda>v. assign (interval_update (\<lambda>_. v))))
         (seq_p (bind_p (lift_p (subscript scenario_args 3)) (\<lambda>v. assign (input_dir_update (\<lambda>_. v))))
                (assign (output_dir_update (\<lambda>_. OUTPUT_DIR env))))))) s)"

text \<open>Lines 52 and 53: validation, then conversion of the input directory.\<close>

definition main_validate :: "unit prog" where
  "main_validate s = lift_p (ensure_required_args (ns s)) s"

definition main_convert :: "env \<Rightarrow> unit prog" where
  "main_convert env s = call_p (CPklToCsv (input_dir (ns s))) (pkl_to_csv env (input_dir (ns s))) s"

text \<open>Lines 55 to 57: the status \<open>running\<close>.\<close>

definition main_mark_running :: "env \<Rightarrow> unit prog" where
  "main_mark_running env =
     when_p scenario_id
       (\<lambda>s. insert_in_file (EXECUTE_LIST env) (scenario_id (ns s)) ''status'' ''running'' s)"

text \<open>Lines 59 to 68: the launcher is looked up, constructed and run.\<close>

definition make_launcher :: "string \<Rightarrow> args \<Rightarrow> launcher" where
  "make_launcher cls a =
     \<lparr>launcher_class = cls, l_start_date = start_date a, l_end_date = end_date a,
      l_interval = interval a, l_input_dir = input_dir a,
      l_threads = threads a, l_julia_env = julia_env a\<rparr>"

definition main_launch :: "env \<Rightarrow> pyval prog" where
  "main_launch env s =
     bind_p (call_p (CGetLauncher (solver (ns s))) (get_launcher env (solver (ns s)))) (\<lambda>cls.
     bind_p (call_p (CNewLauncher (make_launcher cls (ns s)))
               (case new_launcher env (make_launcher cls (ns s)) of
                  Some e \<Rightarrow> Inl e
                | None \<Rightarrow> Inr (make_launcher cls (ns s)))) (\<lambda>launcher.
     call_p (CLaunchScenario launcher) (launch_scenario env launcher))) s"

text \<open>Lines 70 to 72: the runtime is recorded.\<close>

definition main_record :: "env \<Rightarrow> pyval \<Rightarrow> unit prog" where
  "main_record env runtime =
     when_p scenario_id (\<lambda>s. record_scenario env (scenario_id (ns s)) runtime s)"

text \<open>Lines 74 to 82: extraction.\<close>

definition main_extract :: "env \<Rightarrow> unit prog" where
  "main_extract env =
     when_p extract_data (\<lambda>s.
       call_p (CExtractScenario (input_dir (ns s)) (start_date (ns s)) (end_date (ns s))
                 (scenario_id (ns s)) (output_dir (ns s)) (keep_matlab (ns s)))
              (extract_scenario env (input_dir (ns s)) (start_date (ns s)) (end_date (ns s))
                 (scenario_id (ns s)) (output_dir (ns s)) (keep_matlab (ns s))) s)"

text \<open>\<open>main(args)\<close>\<close>

definition main :: "env \<Rightarrow> unit prog" where
  "main env =
     seq_p (main_resolve env)
    (seq_p main_validate
    (seq_p (main_convert env)
    (seq_p (main_mark_running env)
    (bind_p (main_launch env) (\<lambda>runtime.
     seq_p (main_record env runtime)
           (main_extract env))))))"

text \<open>
  The block under \<open>if __name__ == "__main__"\<close>, from the parsed namespace on. The
  handler receives instances of \<open>Exception\<close> only; anything else leaves the script
  uncaught. Nothing in the block sets an exit status: a script that runs to its end
  exits with status 0.
\<close>

datatype outcome = Returned | Uncaught exn

definition handler :: "env \<Rightarrow> exn \<Rightarrow> unit prog" where
  "handler env ex =
     seq_p (call_p (CPrint ex) (Inr ()))
       (when_p scenario_id
          (\<lambda>s. insert_in_file (EXECUTE_LIST env) (scenario_id (ns s)) ''status'' ''failed'' s))"

definition script :: "env \<Rightarrow> state \<Rightarrow> outcome \<times> state" where
  "script env s =
     (case main env s of
        (Inr _, s1) \<Rightarrow> (Returned, s1)
      | (Inl ex, s1) \<Rightarrow>
          (if is_Exception ex
           then (case handler env ex s1 of
                   (Inr _, s2) \<Rightarrow> (Returned, s2)
                 | (Inl ex', s2) \<Rightarrow> (Uncaught ex', s2))
           else (Uncaught ex, s1)))"




section \<open>Specification devices\<close>

text \<open>The calls a run of \<open>main\<close> or of the script adds to the log.\<close>

definition new_calls :: "state \<Rightarrow> state \<Rightarrow> call list" where
  "new_calls s s' = drop (length (calls s)) (calls s')"

text \<open>
  The position of each call in the sequence of \<open>main\<close>: registry lookup, conversion,
  status \<open>running\<close>, launcher lookup, launcher construction, launch, status
  \<open>finished\<close>, \<open>sec2hms\<close>, runtime entry, extraction.
\<close>

fun call_rank :: "call \<Rightarrow> nat" where
  "call_rank (CGetScenario _) = 0"
| "call_rank (CPklToCsv _) = 1"
| "call_rank (CInsertInFile _ _ column_name column_value) =
     (if column_name = ''status'' \<and> column_value = ''running'' then 2
      else if column_name = ''status'' then 6
      else 8)"
| "call_rank (CGetLauncher _) = 3"
| "call_rank (CNewLauncher _) = 4"
| "call_rank (CLaunchScenario _) = 5"
| "call_rank (CSec2hms _) = 7"
| "call_rank (CExtractScenario _ _ _ _ _ _) = 9"
| "call_rank (CPrint _) = 10"

text \<open>
  The whole sequence of calls of a run of \<open>main\<close> that returns, for the namespace \<open>a\<close> as
  resolution leaves it, the launcher class \<open>cls\<close>, the runtime the launcher reports and
  the text of the runtime entry.
\<close>

definition main_calls :: "env \<Rightarrow> args \<Rightarrow> string \<Rightarrow> pyval \<Rightarrow> string \<Rightarrow> call list" where
  "main_calls env a cls runtime text =
     (if truthy (scenario_id a) then [CGetScenario (scenario_id a)] else []) @
     [CPklToCsv (input_dir a)] @
     (if truthy (scenario_id a)
      then [CInsertInFile (EXECUTE_LIST env) (scenario_id a) ''status'' ''running'']
      else []) @
     [CGetLauncher (solver a),
      CNewLauncher \<lparr>launcher_class = cls, l_start_date = start_date a, l_end_date = end_date a,
        l_interval = interval a, l_input_dir = input_dir a,
        l_threads = threads a, l_julia_env = julia_env a\<rparr>,
      CLaunchScenario \<lparr>launcher_class = cls, l_start_date = start_date a, l_end_date = end_date a,
        l_interval = interval a, l_input_dir = input_dir a,
        l_threads = threads a, l_julia_env = julia_env a\<rparr>] @
     (if truthy (scenario_id a)
      then [CInsertInFile (EXECUTE_LIST env) (scenario_id a) ''status'' ''finished'',
            CSec2hms runtime,
            CInsertInFile (SCENARIO_LIST env) (scenario_id a) ''runtime'' text]
      else []) @
     (if truthy (extract_data a)
      then [CExtractScenario (input_dir a) (start_date a) (end_date a)
              (scenario_id a) (output_dir a) (keep_matlab a)]
      else [])"

section \<open>Example runs\<close>

text \<open>
  A registry with one scenario, collaborators that succeed, a launcher that reports
  3725 seconds, and \<open>sec2hms\<close> splitting seconds with two \<open>divmod\<close> by 60.
\<close>

definition example_env :: env where
  "example_env =
     \<lparr>EXECUTE_LIST = ''ExecuteList.csv'',
      SCENARIO_LIST = ''ScenarioList.csv'',
      OUTPUT_DIR = PStr ''/mnt/output'',
      get_scenario = (\<lambda>sid.
        if sid = PStr ''87''
        then Inr (PTuple [PStr ''2016-01-01'', PStr ''2016-01-07'', PInt 24, PStr ''/mnt/input/87''])
        else Inl (OtherException ''unknown scenario'')),
      sec2hms = (\<lambda>v.
        case v of
          PInt n \<Rightarrow> Inr (PTuple [PInt (n div 60 div 60), PInt (n div 60 mod 60), PInt (n mod 60)])
        | _ \<Rightarrow> Inl TypeError),
      pkl_to_csv = (\<lambda>_. Inr ()),
      get_launcher = (\<lambda>_. Inr ''GurobiLauncher''),
      new_launcher = (\<lambda>_. None),
      launch_scenario = (\<lambda>_. Inr (PInt 3725)),
      extract_scenario = (\<lambda>_ _ _ _ _ _. Inr ())\<rparr>"

text \<open>The same, with an extractor that raises an ordinary exception.\<close>

definition failing_extract_env :: env where
  "failing_extract_env =
     example_env\<lparr>extract_scenario := (\<lambda>_ _ _ _ _ _. Inl (OtherException ''extraction failed''))\<rparr>"

text \<open>The same, with a launch interrupted from the keyboard, and with an extraction
  interrupted from the keyboard.\<close>

definition interrupted_launch_env :: env where
  "interrupted_launch_env =
     example_env\<lparr>launch_scenario := (\<lambda>_. Inl (BaseOnly ''KeyboardInterrupt'' 130))\<rparr>"

definition interrupted_extract_env :: env where
  "interrupted_extract_env =
     example_env\<lparr>extract_scenario := (\<lambda>_ _ _ _ _ _. Inl (BaseOnly ''KeyboardInterrupt'' 130))\<rparr>"

text \<open>A scenario-driven command line, and command lines without a scenario.\<close>

definition scenario_args :: args where
  "scenario_args =
     \<lparr>scenario_id = PStr ''87'', start_date = PNone, end_date = PNone, interval = PNone,
      input_dir = PNone, output_dir = PNone, solver = PStr ''gurobi'', threads = PInt 8,
      julia_env = PNone, extract_data = PBool True, keep_matlab = PBool False\<rparr>"

definition cli_args :: args where
  "cli_args =
     \<lparr>scenario_id = PNone, start_date = PStr ''2016-01-01'', end_date = PStr ''2016-01-07'',
      interval = PInt 24, input_dir = PStr ''/home/user/case'', output_dir = PStr ''/home/user/out'',
      solver = PStr ''gurobi'', threads = PInt 8, julia_env = PNone,
      extract_data = PBool True, keep_matlab = PBool False\<rparr>"

definition zero_interval_args :: args where
  "zero_interval_args = cli_args\<lparr>interval := PInt 0\<rparr>"

definition missing_input_args :: args where
  "missing_input_args = cli_args\<lparr>input_dir := PNone\<rparr>"

definition initial :: "args \<Rightarrow> state" where
  "initial a = \<lparr>ns = a, files = Map.empty, calls = []\<rparr>"

text \<open>A \<open>print\<close> that returns, a status write that returns, and a status write that
  fails because the tracking file cannot be written.\<close>

definition quiet_print :: "exn \<Rightarrow> exn option" where
  "quiet_print ex = None"

definition working_write :: "string \<Rightarrow> pyval \<Rightarrow> string \<Rightarrow> string \<Rightarrow> exn option" where
  "working_write filename sid column_name column_value = None"

definition failing_write :: "string \<Rightarrow> pyval \<Rightarrow> string \<Rightarrow> string \<Rightarrow> exn option" where
  "failing_write filename sid column_name column_value = Some (OtherException ''cannot write'')"

section \<open>Auxiliary facts\<close>

lemmas prog_defs =
  bind_p_def seq_p_def lift_p_def call_p_def when_p_def assign_def insert_in_file_def

lemmas main_defs =
  main_def main_resolve_def main_validate_def main_convert_def main_mark_running_def
  main_launch_def main_record_def main_extract_def record_scenario_def

lemmas example_defs =
  example_env_def failing_extract_env_def interrupted_launch_env_def
  interrupted_extract_env_def scenario_args_def cli_args_def zero_interval_args_def
  missing_input_args_def initial_def quiet_print_def working_write_def failing_write_def

lemmas fmt_defs = fmt_runtime_def fmt_d_def fmt_0d_def show_nat.simps digit_char_def

lemmas run_defs = script_def handler_def main_defs prog_defs example_defs make_launcher_def new_calls_def

text \<open>The test of \<open>_ensure_required_args\<close> is the conjunction of four truth values.\<close>

lemma ensure_required_args_iff:
  "ensure_required_args a =
     (if truthy (start_date a) \<and> truthy (end_date a) \<and> truthy (interval a) \<and> truthy (input_dir a)
      then Inr () else Inl (WrongNumberOfArguments err_str))"
  by (simp add: ensure_required_args_def py_and_def py_not_def)

lemma length_show_nat: "Suc 0 \<le> length (show_nat n)"
  by (subst show_nat.simps) simp

lemma show_nat_one_digit: "n < 10 \<Longrightarrow> length (show_nat n) = 1"
  by (subst show_nat.simps) simp

lemma show_nat_more_digits: "10 \<le> n \<Longrightarrow> 2 \<le> length (show_nat n)"
  using length_show_nat [of "n div 10"] by (subst show_nat.simps) (simp del: One_nat_def)

text \<open>\<open>%02d\<close> puts one zero in front of a single digit and changes nothing else.\<close>

lemma fmt_0d_2:
  "fmt_0d 2 m = (if 0 \<le> m \<and> m < 10 then CHR ''0'' # fmt_d m else fmt_d m)"
proof (cases "m < 0")
  case True
  then show ?thesis
    using length_show_nat [of "nat \<bar>m\<bar>"] by (simp add: fmt_0d_def fmt_d_def Let_def)
next
  case False
  show ?thesis
  proof (cases "m < 10")
    case True
    with \<open>\<not> m < 0\<close> show ?thesis
      using show_nat_one_digit [of "nat m"] by (simp add: fmt_0d_def fmt_d_def Let_def)
  next
    case False
    then show ?thesis
      using show_nat_more_digits [of "nat m"] by (simp add: fmt_0d_def fmt_d_def Let_def)
  qed
qed

text \<open>Resolution touches neither the store nor the fields it does not assign.\<close>

lemma main_resolve_frame:
  assumes "main_resolve env s = (r, s1)"
  shows "files s1 = files s \<and>
         calls s1 = calls s @
           (if truthy (scenario_id (ns s)) then [CGetScenario (scenario_id (ns s))] else []) \<and>
         scenario_id (ns s1) = scenario_id (ns s)"
  using assms
  by (auto simp: main_resolve_def prog_defs split: sum.splits if_splits)

lemma main_after_resolve:
  assumes "main_resolve env s = (Inr (), s1)"
  shows "main env s =
     (seq_p main_validate
     (seq_p (main_convert env)
     (seq_p (main_mark_running env)
     (bind_p (main_launch env) (\<lambda>runtime.
      seq_p (main_record env runtime)
            (main_extract env)))))) s1"
  using assms by (simp add: main_def seq_p_def bind_p_def)

text \<open>\<open>main\<close> never assigns \<open>args.scenario_id\<close>.\<close>

lemma main_keeps_scenario_id:
  assumes "main env s = (r, s')"
  shows "scenario_id (ns s') = scenario_id (ns s)"
  using assms
  by (auto simp: main_defs prog_defs split: sum.splits if_splits prod.splits option.splits)

lemma handler_eq:
  "handler env ex s1 =
     (Inr (),
      if truthy (scenario_id (ns s1))
      then s1\<lparr>files := (files s1)((EXECUTE_LIST env, scenario_id (ns s1), ''status'') \<mapsto> ''failed''),
              calls := calls s1 @ [CPrint ex,
                CInsertInFile (EXECUTE_LIST env) (scenario_id (ns s1)) ''status'' ''failed'']\<rparr>
      else s1\<lparr>calls := calls s1 @ [CPrint ex]\<rparr>)"
  by (simp add: handler_def prog_defs)

lemma script_after_exception:
  assumes "main env s = (Inl ex, s1)" and "is_Exception ex"
  shows "script env s =
     (Returned,
      if truthy (scenario_id (ns s))
      then s1\<lparr>files := (files s1)((EXECUTE_LIST env, scenario_id (ns s), ''status'') \<mapsto> ''failed''),
              calls := calls s1 @ [CPrint ex,
                CInsertInFile (EXECUTE_LIST env) (scenario_id (ns s)) ''status'' ''failed'']\<rparr>
      else s1\<lparr>calls := calls s1 @ [CPrint ex]\<rparr>)"
  using assms main_keeps_scenario_id [OF assms(1)]
  by (simp add: script_def handler_eq)



section \<open>Scenario resolution\<close>

text \<open>
  Claim C1. In every run whose namespace carries a scenario identifier (the test of line
  44, \<open>if args.scenario_id\<close>, succeeds) and whose registry lookup returns the tuple
  \<open>(a, b, c, d)\<close>, the namespace that \<open>main\<close> leaves behind has \<open>start_date = a\<close>,
  \<open>end_date = b\<close>, \<open>interval = c\<close>, \<open>input_dir = d\<close> and \<open>output_dir = const.OUTPUT_DIR\<close>,
  whatever these five fields held before and however the run ends afterwards; the
  lookup, made with the scenario identifier, is the first call of the run.
\<close>

theorem main_resolves_scenario:
  assumes "truthy (scenario_id (ns s))"
    and "get_scenario env (scenario_id (ns s)) = Inr (PTuple [a, b, c, d])"
    and "main env s = (r, s')"
  shows "start_date (ns s') = a \<and> end_date (ns s') = b \<and> interval (ns s') = c \<and>
         input_dir (ns s') = d \<and> output_dir (ns s') = OUTPUT_DIR env \<and>
         take 1 (new_calls s s') = [CGetScenario (scenario_id (ns s))]"
  using assms
  by (auto simp: main_defs prog_defs new_calls_def
           split: sum.splits if_splits prod.splits option.splits)

theorem main_resolves_scenario_witness:
  "truthy (scenario_id (ns (initial scenario_args))) \<and>
   get_scenario example_env (scenario_id (ns (initial scenario_args))) =
     Inr (PTuple [PStr ''2016-01-01'', PStr ''2016-01-07'', PInt 24, PStr ''/mnt/input/87'']) \<and>
   start_date (ns (snd (main example_env (initial scenario_args)))) = PStr ''2016-01-01'' \<and>
   end_date (ns (snd (main example_env (initial scenario_args)))) = PStr ''2016-01-07'' \<and>
   interval (ns (snd (main example_env (initial scenario_args)))) = PInt 24 \<and>
   input_dir (ns (snd (main example_env (initial scenario_args)))) = PStr ''/mnt/input/87'' \<and>
   output_dir (ns (snd (main example_env (initial scenario_args)))) = PStr ''/mnt/output''"
proof -
  have h1: "truthy (scenario_id (ns (initial scenario_args)))"
    by (simp add: example_defs)
  have h2: "get_scenario example_env (scenario_id (ns (initial scenario_args))) =
     Inr (PTuple [PStr ''2016-01-01'', PStr ''2016-01-07'', PInt 24, PStr ''/mnt/input/87''])"
    by (simp add: example_defs)
  have h3: "main example_env (initial scenario_args) =
     (fst (main example_env (initial scenario_args)), snd (main example_env (initial scenario_args)))"
    by simp
  have out: "OUTPUT_DIR example_env = PStr ''/mnt/output''"
    by (simp add: example_defs)
  from main_resolves_scenario [OF h1 h2 h3] h1 h2 out show ?thesis
    by simp
qed

section \<open>Validation of the required arguments\<close>

text \<open>
  Claim C8. \<open>_ensure_required_args\<close> tests truth values: when any one of \<open>start_date\<close>,
  \<open>end_date\<close>, \<open>interval\<close> and \<open>input_dir\<close> holds a falsy value \<open>v\<close>, it raises
  \<open>WrongNumberOfArguments\<close> with the fixed message, which is exactly what it does when
  that field is \<open>None\<close>. The empty string, \<open>None\<close>, \<open>0\<close>, \<open>False\<close>, the empty list and
  the empty tuple are falsy.
\<close>

theorem falsy_required_argument_rejected:
  "(\<not> truthy v \<longrightarrow>
      ensure_required_args (a\<lparr>start_date := v\<rparr>) = Inl (WrongNumberOfArguments err_str) \<and>
      ensure_required_args (a\<lparr>end_date := v\<rparr>) = Inl (WrongNumberOfArguments err_str) \<and>
      ensure_required_args (a\<lparr>interval := v\<rparr>) = Inl (WrongNumberOfArguments err_str) \<and>
      ensure_required_args (a\<lparr>input_dir := v\<rparr>) = Inl (WrongNumberOfArguments err_str) \<and>
      ensure_required_args (a\<lparr>start_date := v\<rparr>) = ensure_required_args (a\<lparr>start_date := PNone\<rparr>) \<and>
      ensure_required_args (a\<lparr>end_date := v\<rparr>) = ensure_required_args (a\<lparr>end_date := PNone\<rparr>) \<and>
      ensure_required_args (a\<lparr>interval := v\<rparr>) = ensure_required_args (a\<lparr>interval := PNone\<rparr>) \<and>
      ensure_required_args (a\<lparr>input_dir := v\<rparr>) = ensure_required_args (a\<lparr>input_dir := PNone\<rparr>)) \<and>
   \<not> truthy (PStr '''') \<and> \<not> truthy PNone \<and> \<not> truthy (PInt 0) \<and> \<not> truthy (PBool False) \<and>
   \<not> truthy (PList []) \<and> \<not> truthy (PTuple [])"
  by (simp add: ensure_required_args_iff)

theorem falsy_required_argument_rejected_witness:
  "\<not> truthy (PStr '''') \<and>
   ensure_required_args cli_args = Inr () \<and>
   ensure_required_args (cli_args\<lparr>input_dir := PStr ''''\<rparr>) = Inl (WrongNumberOfArguments err_str) \<and>
   ensure_required_args (cli_args\<lparr>input_dir := PStr ''''\<rparr>) =
     ensure_required_args (cli_args\<lparr>input_dir := PNone\<rparr>)"
proof -
  have ok: "ensure_required_args cli_args = Inr ()"
    by (simp add: ensure_required_args_iff cli_args_def)
  have falsy: "\<not> truthy (PStr '''')"
    by simp
  from falsy_required_argument_rejected [of "PStr ''''" cli_args] falsy
  have "ensure_required_args (cli_args\<lparr>input_dir := PStr ''''\<rparr>) = Inl (WrongNumberOfArguments err_str)"
    and "ensure_required_args (cli_args\<lparr>input_dir := PStr ''''\<rparr>) =
         ensure_required_args (cli_args\<lparr>input_dir := PNone\<rparr>)"
    by blast+
  with ok falsy show ?thesis
    by blast
qed

text \<open>
  Claim C2, as stated, fails on its second half. With \<open>--interval 0\<close> all four required
  arguments are present on the command line, none of them is \<open>None\<close>, and \<open>main\<close> still
  raises \<open>WrongNumberOfArguments\<close>, before any call.
\<close>

theorem present_but_zero_interval_rejected:
  "start_date zero_interval_args \<noteq> PNone \<and> end_date zero_interval_args \<noteq> PNone \<and>
   interval zero_interval_args \<noteq> PNone \<and> input_dir zero_interval_args \<noteq> PNone \<and>
   main_resolve example_env (initial zero_interval_args) = (Inr (), initial zero_interval_args) \<and>
   main example_env (initial zero_interval_args) =
     (Inl (WrongNumberOfArguments err_str), initial zero_interval_args)"
  by (simp add: main_defs prog_defs example_defs ensure_required_args_iff)

text \<open>
  Claim C2, amended. Let scenario resolution complete and leave the state \<open>s1\<close>. If any
  of \<open>start_date\<close>, \<open>end_date\<close>, \<open>interval\<close> and \<open>input_dir\<close> is then falsy (absent, that
  is \<open>None\<close>, or empty, or zero), \<open>main\<close> raises \<open>WrongNumberOfArguments\<close> in that very
  state: the store is untouched and the only call made so far is the registry lookup of
  a scenario-driven run, so conversion, launcher and tracking writes have not happened. If
  all four are truthy, validation raises nothing and the next call of \<open>main\<close> is the
  conversion of the input directory.
\<close>

theorem validation_after_resolution:
  assumes "main_resolve env s = (Inr (), s1)"
  shows "(\<not> (truthy (start_date (ns s1)) \<and> truthy (end_date (ns s1)) \<and>
             truthy (interval (ns s1)) \<and> truthy (input_dir (ns s1))) \<longrightarrow>
            main env s = (Inl (WrongNumberOfArguments err_str), s1) \<and>
            files s1 = files s \<and>
            new_calls s s1 =
              (if truthy (scenario_id (ns s)) then [CGetScenario (scenario_id (ns s))] else [])) \<and>
         (truthy (start_date (ns s1)) \<and> truthy (end_date (ns s1)) \<and>
          truthy (interval (ns s1)) \<and> truthy (input_dir (ns s1)) \<longrightarrow>
            ensure_required_args (ns s1) = Inr () \<and>
            take 1 (new_calls s1 (snd (main env s))) = [CPklToCsv (input_dir (ns s1))])"
proof (intro conjI impI)
  assume "\<not> (truthy (start_date (ns s1)) \<and> truthy (end_date (ns s1)) \<and>
             truthy (interval (ns s1)) \<and> truthy (input_dir (ns s1)))"
  then show "main env s = (Inl (WrongNumberOfArguments err_str), s1)"
    unfolding main_after_resolve [OF assms]
    by (auto simp add: seq_p_def bind_p_def main_validate_def lift_p_def ensure_required_args_iff)
  show "files s1 = files s"
    using main_resolve_frame [OF assms] by simp
  show "new_calls s s1 =
      (if truthy (scenario_id (ns s)) then [CGetScenario (scenario_id (ns s))] else [])"
    using main_resolve_frame [OF assms] by (simp add: new_calls_def)
next
  assume ok: "truthy (start_date (ns s1)) \<and> truthy (end_date (ns s1)) \<and>
          truthy (interval (ns s1)) \<and> truthy (input_dir (ns s1))"
  then show "ensure_required_args (ns s1) = Inr ()"
    by (simp add: ensure_required_args_iff)
  obtain r s' where m: "main env s = (r, s')"
    by (cases "main env s")
  from m ok have "take 1 (new_calls s1 s') = [CPklToCsv (input_dir (ns s1))]"
    unfolding main_after_resolve [OF assms]
    by (auto simp: main_validate_def main_convert_def main_mark_running_def main_launch_def
                   main_record_def main_extract_def record_scenario_def prog_defs new_calls_def
                   ensure_required_args_iff
             split: sum.splits if_splits prod.splits option.splits)
  with m show "take 1 (new_calls s1 (snd (main env s))) = [CPklToCsv (input_dir (ns s1))]"
    by simp
qed

theorem validation_after_resolution_witness:
  "main_resolve example_env (initial missing_input_args) = (Inr (), initial missing_input_args) \<and>
   input_dir (ns (initial missing_input_args)) = PNone \<and>
   main example_env (initial missing_input_args) =
     (Inl (WrongNumberOfArguments err_str), initial missing_input_args) \<and>
   main_resolve example_env (initial cli_args) = (Inr (), initial cli_args) \<and>
   truthy (start_date (ns (initial cli_args))) \<and> truthy (end_date (ns (initial cli_args))) \<and>
   truthy (interval (ns (initial cli_args))) \<and> truthy (input_dir (ns (initial cli_args))) \<and>
   take 1 (new_calls (initial cli_args) (snd (main example_env (initial cli_args)))) =
     [CPklToCsv (PStr ''/home/user/case'')]"
proof -
  have r1: "main_resolve example_env (initial missing_input_args) = (Inr (), initial missing_input_args)"
    by (simp add: main_resolve_def prog_defs example_defs)
  have f1: "input_dir (ns (initial missing_input_args)) = PNone"
    by (simp add: example_defs)
  have r2: "main_resolve example_env (initial cli_args) = (Inr (), initial cli_args)"
    by (simp add: main_resolve_def prog_defs example_defs)
  have t2: "truthy (start_date (ns (initial cli_args))) \<and> truthy (end_date (ns (initial cli_args))) \<and>
      truthy (interval (ns (initial cli_args))) \<and> truthy (input_dir (ns (initial cli_args)))"
    by (simp add: example_defs)
  have d2: "input_dir (ns (initial cli_args)) = PStr ''/home/user/case''"
    by (simp add: example_defs)
  from validation_after_resolution [OF r1] f1
  have a: "main example_env (initial missing_input_args) =
     (Inl (WrongNumberOfArguments err_str), initial missing_input_args)"
    by simp
  from validation_after_resolution [OF r2] t2 d2
  have b: "take 1 (new_calls (initial cli_args) (snd (main example_env (initial cli_args)))) =
     [CPklToCsv (PStr ''/home/user/case'')]"
    by simp
  from r1 f1 a r2 t2 b show ?thesis
    by blast
qed

section \<open>Recording the run\<close>

text \<open>
  Claim C3. In every scenario-driven run of \<open>main\<close> in which the launcher has run and
  returned a runtime, and \<open>sec2hms\<close> splits that runtime into three items of which the
  first two are integers \<open>hours\<close> and \<open>minutes\<close>, the tracking store that \<open>main\<close> leaves
  behind holds the status \<open>finished\<close> in \<open>EXECUTE_LIST\<close> under the scenario id and, in
  \<open>SCENARIO_LIST\<close> under the scenario id, the runtime \<open>"%d:%02d" % (hours, minutes)\<close>: the
  hours in decimal, a colon, and the minutes with a zero in front when they are a single
  digit. The third item, the seconds, does not enter the entry. This holds whether
  \<open>main\<close> then returns or the extraction raises; what the top-level handler does to the
  status afterwards is the subject of C10.
\<close>

theorem main_records_runtime:
  assumes "main env s = (r, s')"
    and "truthy (scenario_id (ns s))"
    and "CLaunchScenario l \<in> set (new_calls s s')"
    and "launch_scenario env l = Inr runtime"
    and "sec2hms env runtime = Inr hms"
    and "unpack3 hms = Inr (h, m, sec)"
    and "as_int h = Some hours"
    and "as_int m = Some minutes"
  shows "files s' (EXECUTE_LIST env, scenario_id (ns s), ''status'') = Some ''finished'' \<and>
         files s' (SCENARIO_LIST env, scenario_id (ns s), ''runtime'') =
           Some (fmt_d hours @ '':'' @ fmt_0d 2 minutes) \<and>
         fmt_0d 2 minutes =
           (if 0 \<le> minutes \<and> minutes < 10 then CHR ''0'' # fmt_d minutes else fmt_d minutes)"
proof -
  from assms
  have "files s' (EXECUTE_LIST env, scenario_id (ns s), ''status'') = Some ''finished'' \<and>
        files s' (SCENARIO_LIST env, scenario_id (ns s), ''runtime'') =
          Some (fmt_d hours @ '':'' @ fmt_0d 2 minutes)"
    by (auto simp: main_defs prog_defs new_calls_def fmt_runtime_def
             split: sum.splits if_splits prod.splits option.splits)
  then show ?thesis
    using fmt_0d_2 [of minutes] by simp
qed

theorem main_records_runtime_witness:
  "truthy (scenario_id (ns (initial scenario_args))) \<and>
   CLaunchScenario (make_launcher ''GurobiLauncher'' (ns (snd (main example_env (initial scenario_args)))))
     \<in> set (new_calls (initial scenario_args) (snd (main example_env (initial scenario_args)))) \<and>
   launch_scenario example_env
     (make_launcher ''GurobiLauncher'' (ns (snd (main example_env (initial scenario_args))))) =
     Inr (PInt 3725) \<and>
   sec2hms example_env (PInt 3725) = Inr (PTuple [PInt 1, PInt 2, PInt 5]) \<and>
   files (snd (main example_env (initial scenario_args)))
     (''ExecuteList.csv'', PStr ''87'', ''status'') = Some ''finished'' \<and>
   files (snd (main example_env (initial scenario_args)))
     (''ScenarioList.csv'', PStr ''87'', ''runtime'') = Some ''1:02''"
proof -
  have m: "main example_env (initial scenario_args) =
     (fst (main example_env (initial scenario_args)), snd (main example_env (initial scenario_args)))"
    by simp
  have h1: "truthy (scenario_id (ns (initial scenario_args)))"
    by (simp add: example_defs)
  have h2: "CLaunchScenario (make_launcher ''GurobiLauncher'' (ns (snd (main example_env (initial scenario_args)))))
     \<in> set (new_calls (initial scenario_args) (snd (main example_env (initial scenario_args))))"
    by (simp add: run_defs ensure_required_args_iff fmt_defs)
  have h3: "launch_scenario example_env
     (make_launcher ''GurobiLauncher'' (ns (snd (main example_env (initial scenario_args))))) =
     Inr (PInt 3725)"
    by (simp add: example_defs)
  have h4: "sec2hms example_env (PInt 3725) = Inr (PTuple [PInt 1, PInt 2, PInt 5])"
    by (simp add: example_defs)
  have h5: "unpack3 (PTuple [PInt 1, PInt 2, PInt 5]) = Inr (PInt 1, PInt 2, PInt 5)"
    by simp
  have h6: "as_int (PInt 1) = Some 1" and h7: "as_int (PInt 2) = Some 2"
    by simp_all
  have e: "EXECUTE_LIST example_env = ''ExecuteList.csv'' \<and>
           SCENARIO_LIST example_env = ''ScenarioList.csv'' \<and>
           scenario_id (ns (initial scenario_args)) = PStr ''87''"
    by (simp add: example_defs)
  have f: "fmt_d 1 @ '':'' @ fmt_0d 2 2 = ''1:02''"
    by (simp add: fmt_defs)
  from main_records_runtime [OF m h1 h2 h3 h4 h5 h6 h7] e f
  have "files (snd (main example_env (initial scenario_args)))
          (''ExecuteList.csv'', PStr ''87'', ''status'') = Some ''finished'' \<and>
        files (snd (main example_env (initial scenario_args)))
          (''ScenarioList.csv'', PStr ''87'', ''runtime'') = Some ''1:02''"
    by simp
  with h1 h2 h3 h4 show ?thesis
    by blast
qed

section \<open>The top-level handler\<close>

text \<open>
  Claim C4, as stated, fails: the handler is \<open>except Exception\<close>, and an exception that
  is not an instance of \<open>Exception\<close> passes it by. When the launch is interrupted from the
  keyboard in a scenario-driven run, nothing is printed, the script ends with the
  interrupt uncaught, and the store still shows the status \<open>running\<close>.
\<close>

theorem interrupt_escapes_handler:
  "truthy (scenario_id (ns (initial scenario_args))) \<and>
   fst (main interrupted_launch_env (initial scenario_args)) =
     Inl (BaseOnly ''KeyboardInterrupt'' 130) \<and>
   fst (script interrupted_launch_env (initial scenario_args)) =
     Uncaught (BaseOnly ''KeyboardInterrupt'' 130) \<and>
   CPrint (BaseOnly ''KeyboardInterrupt'' 130) \<notin>
     set (calls (snd (script interrupted_launch_env (initial scenario_args)))) \<and>
   files (snd (script interrupted_launch_env (initial scenario_args)))
     (''ExecuteList.csv'', PStr ''87'', ''status'') = Some ''running''"
  by (simp add: run_defs ensure_required_args_iff)

text \<open>
  Claim C4, amended. For every exception that is an instance of \<open>Exception\<close> and is
  raised at any point of \<open>main\<close>, the script ends normally in the state \<open>main\<close> left,
  changed by the handler alone: the exception is printed and, if and only if the run is
  scenario-driven, the status \<open>failed\<close> is written for that scenario id into
  \<open>EXECUTE_LIST\<close>. Every other entry of the store is as \<open>main\<close> left it and no
  collaborator is called again: nothing is undone and nothing is retried. An exception
  that is not an instance of \<open>Exception\<close> is not caught: the script ends with it
  uncaught, in the very state \<open>main\<close> left, with nothing printed and nothing written.
\<close>

theorem handler_marks_failed:
  assumes "main env s = (Inl ex, s1)"
  shows "(is_Exception ex \<longrightarrow>
            script env s =
              (Returned,
               if truthy (scenario_id (ns s))
               then s1\<lparr>files := (files s1)((EXECUTE_LIST env, scenario_id (ns s), ''status'') \<mapsto> ''failed''),
                       calls := calls s1 @ [CPrint ex,
                         CInsertInFile (EXECUTE_LIST env) (scenario_id (ns s)) ''status'' ''failed'']\<rparr>
               else s1\<lparr>calls := calls s1 @ [CPrint ex]\<rparr>)) \<and>
         (\<not> is_Exception ex \<longrightarrow> script env s = (Uncaught ex, s1))"
proof (intro conjI impI)
  assume "is_Exception ex"
  with assms show "script env s =
      (Returned,
       if truthy (scenario_id (ns s))
       then s1\<lparr>files := (files s1)((EXECUTE_LIST env, scenario_id (ns s), ''status'') \<mapsto> ''failed''),
               calls := calls s1 @ [CPrint ex,
                 CInsertInFile (EXECUTE_LIST env) (scenario_id (ns s)) ''status'' ''failed'']\<rparr>
       else s1\<lparr>calls := calls s1 @ [CPrint ex]\<rparr>)"
    by (rule script_after_exception)
next
  assume "\<not> is_Exception ex"
  with assms show "script env s = (Uncaught ex, s1)"
    by (simp add: script_def)
qed

theorem handler_marks_failed_witness:
  "main failing_extract_env (initial scenario_args) =
     (Inl (OtherException ''extraction failed''), snd (main failing_extract_env (initial scenario_args))) \<and>
   is_Exception (OtherException ''extraction failed'') \<and>
   truthy (scenario_id (ns (initial scenario_args))) \<and>
   fst (script failing_extract_env (initial scenario_args)) = Returned \<and>
   files (snd (script failing_extract_env (initial scenario_args)))
     (''ExecuteList.csv'', PStr ''87'', ''status'') = Some ''failed'' \<and>
   calls (snd (script failing_extract_env (initial scenario_args))) =
     calls (snd (main failing_extract_env (initial scenario_args))) @
       [CPrint (OtherException ''extraction failed''),
        CInsertInFile ''ExecuteList.csv'' (PStr ''87'') ''status'' ''failed''] \<and>
   main interrupted_launch_env (initial scenario_args) =
     (Inl (BaseOnly ''KeyboardInterrupt'' 130), snd (main interrupted_launch_env (initial scenario_args))) \<and>
   \<not> is_Exception (BaseOnly ''KeyboardInterrupt'' 130) \<and>
   script interrupted_launch_env (initial scenario_args) =
     (Uncaught (BaseOnly ''KeyboardInterrupt'' 130), snd (main interrupted_launch_env (initial scenario_args)))"
proof -
  have f: "fst (main failing_extract_env (initial scenario_args)) =
      Inl (OtherException ''extraction failed'')"
    by (simp add: run_defs ensure_required_args_iff fmt_defs)
  have m: "main failing_extract_env (initial scenario_args) =
     (Inl (OtherException ''extraction failed''), snd (main failing_extract_env (initial scenario_args)))"
    using f by (metis prod.collapse)
  have x: "is_Exception (OtherException ''extraction failed'')"
    by simp
  have e: "truthy (scenario_id (ns (initial scenario_args))) \<and>
           EXECUTE_LIST failing_extract_env = ''ExecuteList.csv'' \<and>
           scenario_id (ns (initial scenario_args)) = PStr ''87''"
    by (simp add: example_defs)
  from handler_marks_failed [OF m] x e
  have a: "fst (script failing_extract_env (initial scenario_args)) = Returned \<and>
        files (snd (script failing_extract_env (initial scenario_args)))
          (''ExecuteList.csv'', PStr ''87'', ''status'') = Some ''failed'' \<and>
        calls (snd (script failing_extract_env (initial scenario_args))) =
          calls (snd (main failing_extract_env (initial scenario_args))) @
            [CPrint (OtherException ''extraction failed''),
             CInsertInFile ''ExecuteList.csv'' (PStr ''87'') ''status'' ''failed'']"
    by simp
  have g: "fst (main interrupted_launch_env (initial scenario_args)) =
      Inl (BaseOnly ''KeyboardInterrupt'' 130)"
    by (simp add: run_defs ensure_required_args_iff)
  have n: "main interrupted_launch_env (initial scenario_args) =
     (Inl (BaseOnly ''KeyboardInterrupt'' 130), snd (main interrupted_launch_env (initial scenario_args)))"
    using g by (metis prod.collapse)
  have y: "\<not> is_Exception (BaseOnly ''KeyboardInterrupt'' 130)"
    by simp
  from handler_marks_failed [OF n] y
  have b: "script interrupted_launch_env (initial scenario_args) =
     (Uncaught (BaseOnly ''KeyboardInterrupt'' 130), snd (main interrupted_launch_env (initial scenario_args)))"
    by blast
  from m x e a n y b show ?thesis
    by blast
qed

text \<open>
  Claim C10, as stated, fails for the same reason as C4: when \<open>extract_scenario\<close> is
  interrupted from the keyboard after a successful simulation, the handler is passed by
  and the status stays \<open>finished\<close>.
\<close>

theorem interrupted_extraction_keeps_finished:
  "truthy (scenario_id (ns (initial scenario_args))) \<and>
   truthy (extract_data (ns (initial scenario_args))) \<and>
   fst (main interrupted_extract_env (initial scenario_args)) =
     Inl (BaseOnly ''KeyboardInterrupt'' 130) \<and>
   extract_scenario interrupted_extract_env (PStr ''/mnt/input/87'') (PStr ''2016-01-01'')
     (PStr ''2016-01-07'') (PStr ''87'') (PStr ''/mnt/output'') (PBool False) =
     Inl (BaseOnly ''KeyboardInterrupt'' 130) \<and>
   last (calls (snd (script interrupted_extract_env (initial scenario_args)))) =
     CExtractScenario (PStr ''/mnt/input/87'') (PStr ''2016-01-01'')
       (PStr ''2016-01-07'') (PStr ''87'') (PStr ''/mnt/output'') (PBool False) \<and>
   files (snd (script interrupted_extract_env (initial scenario_args)))
     (''ExecuteList.csv'', PStr ''87'', ''status'') = Some ''finished''"
  by (simp add: run_defs ensure_required_args_iff fmt_defs)

text \<open>
  Claim C10, amended. In every scenario-driven run in which \<open>extract_scenario\<close> has been
  called (so extraction was requested and the simulation and its recording had
  succeeded) and \<open>main\<close> ends with an exception that is an instance of \<open>Exception\<close>, that
  exception is the one \<open>extract_scenario\<close> raised; the store \<open>main\<close> leaves holds the
  status \<open>finished\<close>, the store the script leaves holds the status \<open>failed\<close>, and the
  runtime entry of \<open>SCENARIO_LIST\<close>, a string of the form \<open>"%d:%02d"\<close>, is the same in
  both.
\<close>

theorem failed_extraction_overwrites_status:
  assumes "main env s = (Inl ex, s1)"
    and "is_Exception ex"
    and "truthy (scenario_id (ns s))"
    and "CExtractScenario i sd ed sid od k \<in> set (new_calls s s1)"
  shows "extract_scenario env i sd ed sid od k = Inl ex \<and>
         files s1 (EXECUTE_LIST env, scenario_id (ns s), ''status'') = Some ''finished'' \<and>
         files (snd (script env s)) (EXECUTE_LIST env, scenario_id (ns s), ''status'') = Some ''failed'' \<and>
         (\<exists>hours minutes.
            files s1 (SCENARIO_LIST env, scenario_id (ns s), ''runtime'') =
              Some (fmt_d hours @ '':'' @ fmt_0d 2 minutes) \<and>
            files (snd (script env s)) (SCENARIO_LIST env, scenario_id (ns s), ''runtime'') =
              Some (fmt_d hours @ '':'' @ fmt_0d 2 minutes))"
proof -
  from assms(1,3,4)
  have a: "extract_scenario env i sd ed sid od k = Inl ex \<and>
         files s1 (EXECUTE_LIST env, scenario_id (ns s), ''status'') = Some ''finished'' \<and>
         (\<exists>hours minutes.
            files s1 (SCENARIO_LIST env, scenario_id (ns s), ''runtime'') =
              Some (fmt_d hours @ '':'' @ fmt_0d 2 minutes))"
    by (auto simp: main_defs prog_defs new_calls_def fmt_runtime_def
             split: sum.splits if_splits prod.splits option.splits) blast+
  have b: "script env s =
     (Returned,
      s1\<lparr>files := (files s1)((EXECUTE_LIST env, scenario_id (ns s), ''status'') \<mapsto> ''failed''),
         calls := calls s1 @ [CPrint ex,
           CInsertInFile (EXECUTE_LIST env) (scenario_id (ns s)) ''status'' ''failed'']\<rparr>)"
    using script_after_exception [OF assms(1,2)] assms(3) by simp
  from a b show ?thesis
    by auto
qed

theorem failed_extraction_overwrites_status_witness:
  "main failing_extract_env (initial scenario_args) =
     (Inl (OtherException ''extraction failed''), snd (main failing_extract_env (initial scenario_args))) \<and>
   is_Exception (OtherException ''extraction failed'') \<and>
   truthy (scenario_id (ns (initial scenario_args))) \<and>
   CExtractScenario (PStr ''/mnt/input/87'') (PStr ''2016-01-01'') (PStr ''2016-01-07'')
       (PStr ''87'') (PStr ''/mnt/output'') (PBool False)
     \<in> set (new_calls (initial scenario_args) (snd (main failing_extract_env (initial scenario_args)))) \<and>
   files (snd (main failing_extract_env (initial scenario_args)))
     (''ExecuteList.csv'', PStr ''87'', ''status'') = Some ''finished'' \<and>
   files (snd (script failing_extract_env (initial scenario_args)))
     (''ExecuteList.csv'', PStr ''87'', ''status'') = Some ''failed'' \<and>
   files (snd (script failing_extract_env (initial scenario_args)))
     (''ScenarioList.csv'', PStr ''87'', ''runtime'') = Some ''1:02''"
proof -
  have f: "fst (main failing_extract_env (initial scenario_args)) =
      Inl (OtherException ''extraction failed'')"
    by (simp add: run_defs ensure_required_args_iff fmt_defs)
  have m: "main failing_extract_env (initial scenario_args) =
     (Inl (OtherException ''extraction failed''), snd (main failing_extract_env (initial scenario_args)))"
    using f by (metis prod.collapse)
  have x: "is_Exception (OtherException ''extraction failed'')"
    by simp
  have t: "truthy (scenario_id (ns (initial scenario_args)))"
    by (simp add: example_defs)
  have c: "CExtractScenario (PStr ''/mnt/input/87'') (PStr ''2016-01-01'') (PStr ''2016-01-07'')
       (PStr ''87'') (PStr ''/mnt/output'') (PBool False)
     \<in> set (new_calls (initial scenario_args) (snd (main failing_extract_env (initial scenario_args))))"
    by (simp add: run_defs ensure_required_args_iff fmt_defs)
  have e: "EXECUTE_LIST failing_extract_env = ''ExecuteList.csv'' \<and>
           scenario_id (ns (initial scenario_args)) = PStr ''87''"
    by (simp add: example_defs)
  have r: "files (snd (script failing_extract_env (initial scenario_args)))
     (''ScenarioList.csv'', PStr ''87'', ''runtime'') = Some ''1:02''"
    by (simp add: run_defs ensure_required_args_iff fmt_defs)
  from failed_extraction_overwrites_status [OF m x t c] e
  have "files (snd (main failing_extract_env (initial scenario_args)))
          (''ExecuteList.csv'', PStr ''87'', ''status'') = Some ''finished'' \<and>
        files (snd (script failing_extract_env (initial scenario_args)))
          (''ExecuteList.csv'', PStr ''87'', ''status'') = Some ''failed''"
    by simp
  with m x t c r show ?thesis
    by blast
qed




section \<open>Runs without a scenario\<close>

text \<open>
  Claim C9. In every run whose namespace carries no scenario identifier (the test
  \<open>if args.scenario_id\<close> fails: \<open>None\<close> or an empty value), the store that the script
  leaves is the store it found, on the path where \<open>main\<close> returns, on the path where the
  handler runs and on the path where an exception escapes; no call of \<open>insert_in_file\<close>
  is made, on either file, and the registry is not consulted.
\<close>

theorem no_scenario_no_tracking:
  assumes "\<not> truthy (scenario_id (ns s))"
  shows "files (snd (script env s)) = files s \<and>
         files (snd (main env s)) = files s \<and>
         (\<forall>f i c v. CInsertInFile f i c v \<notin> set (new_calls s (snd (script env s)))) \<and>
         (\<forall>i. CGetScenario i \<notin> set (new_calls s (snd (script env s))))"
proof -
  obtain r s1 where m: "main env s = (r, s1)"
    by (cases "main env s")
  from m assms have f: "files s1 = files s"
    by (auto simp: main_defs prog_defs split: sum.splits if_splits prod.splits option.splits)
  from m assms have c: "(\<forall>f i c v. CInsertInFile f i c v \<notin> set (new_calls s s1)) \<and>
      (\<forall>i. CGetScenario i \<notin> set (new_calls s s1)) \<and> (\<exists>new. calls s1 = calls s @ new)"
    by (auto simp: main_defs prog_defs new_calls_def
             split: sum.splits if_splits prod.splits option.splits)
  have sid: "scenario_id (ns s1) = scenario_id (ns s)"
    using main_keeps_scenario_id [OF m] .
  from c obtain new where new: "calls s1 = calls s @ new"
    by blast
  show ?thesis
    using m f c sid assms new
    by (cases r) (auto simp: script_def handler_eq new_calls_def)
qed

theorem no_scenario_no_tracking_witness:
  "\<not> truthy (scenario_id (ns (initial cli_args))) \<and>
   fst (script example_env (initial cli_args)) = Returned \<and>
   files (snd (script example_env (initial cli_args))) = files (initial cli_args) \<and>
   \<not> truthy (scenario_id (ns (initial zero_interval_args))) \<and>
   fst (main example_env (initial zero_interval_args)) = Inl (WrongNumberOfArguments err_str) \<and>
   files (snd (script example_env (initial zero_interval_args))) = files (initial zero_interval_args)"
proof -
  have a: "\<not> truthy (scenario_id (ns (initial cli_args)))"
    and b: "\<not> truthy (scenario_id (ns (initial zero_interval_args)))"
    by (simp_all add: example_defs)
  have c: "fst (script example_env (initial cli_args)) = Returned"
    by (simp add: run_defs ensure_required_args_iff)
  have d: "fst (main example_env (initial zero_interval_args)) = Inl (WrongNumberOfArguments err_str)"
    by (simp add: run_defs ensure_required_args_iff)
  from no_scenario_no_tracking [OF a, of example_env] no_scenario_no_tracking [OF b, of example_env]
    a b c d
  show ?thesis
    by blast
qed

section \<open>The order of the calls\<close>

text \<open>
  Claim C5. In every run of \<open>main\<close> the calls that leave the script are an initial
  segment of the sequence: registry lookup (scenario-driven runs only), conversion of the
  input directory, status \<open>running\<close> (scenario-driven only), launcher lookup by solver,
  construction of the launcher, \<open>launch_scenario\<close>, status \<open>finished\<close>, \<open>sec2hms\<close> and
  runtime entry (scenario-driven only), extraction (if requested); a run that raises
  stops somewhere along it, a run that returns has made all of it. The launcher is
  constructed with the resolved start date, end date, interval and input directory, the
  thread count and the Julia environment of the command line, and its class is the one
  \<open>get_launcher(solver)\<close> returned; the launcher that is run is the one constructed;
  \<open>sec2hms\<close> receives the value \<open>launch_scenario\<close> returned and the runtime entry is its
  formatted result. Conversion is called only on arguments that passed validation; the
  status \<open>running\<close> is written, and the launcher looked up, only after conversion has
  returned.
\<close>

theorem main_call_order:
  assumes "main env s = (r, s')"
  shows "calls s' = calls s @ new_calls s s' \<and>
         sorted_wrt (<) (map call_rank (new_calls s s')) \<and>
         solver (ns s') = solver (ns s) \<and> threads (ns s') = threads (ns s) \<and>
         julia_env (ns s') = julia_env (ns s) \<and>
         (\<exists>cls runtime text rest.
            main_calls env (ns s') cls runtime text = new_calls s s' @ rest \<and>
            (r = Inr () \<longrightarrow>
               rest = [] \<and>
               get_launcher env (solver (ns s')) = Inr cls \<and>
               launch_scenario env
                 \<lparr>launcher_class = cls, l_start_date = start_date (ns s'),
                  l_end_date = end_date (ns s'), l_interval = interval (ns s'),
                  l_input_dir = input_dir (ns s'), l_threads = threads (ns s'),
                  l_julia_env = julia_env (ns s')\<rparr> = Inr runtime)) \<and>
         ((\<exists>d. CPklToCsv d \<in> set (new_calls s s')) \<longrightarrow>
            ensure_required_args (ns s') = Inr ()) \<and>
         ((\<exists>f i. CInsertInFile f i ''status'' ''running'' \<in> set (new_calls s s')) \<longrightarrow>
            pkl_to_csv env (input_dir (ns s')) = Inr ()) \<and>
         ((\<exists>v. CGetLauncher v \<in> set (new_calls s s')) \<longrightarrow>
            pkl_to_csv env (input_dir (ns s')) = Inr ()) \<and>
         (\<forall>l. CNewLauncher l \<in> set (new_calls s s') \<longrightarrow>
            get_launcher env (solver (ns s')) = Inr (launcher_class l)) \<and>
         (\<forall>l. CLaunchScenario l \<in> set (new_calls s s') \<longrightarrow> new_launcher env l = None) \<and>
         (\<forall>rt. CSec2hms rt \<in> set (new_calls s s') \<longrightarrow>
            (\<exists>l. CLaunchScenario l \<in> set (new_calls s s') \<and> launch_scenario env l = Inr rt)) \<and>
         (\<forall>f i t. CInsertInFile f i ''runtime'' t \<in> set (new_calls s s') \<longrightarrow>
            (\<exists>rt hms h m sec. CSec2hms rt \<in> set (new_calls s s') \<and> sec2hms env rt = Inr hms \<and>
               unpack3 hms = Inr (h, m, sec) \<and> fmt_runtime h m = Inr t))"
proof (intro conjI)
  show "calls s' = calls s @ new_calls s s'"
    using assms
    by (auto simp: main_defs prog_defs new_calls_def
             split: sum.splits if_splits prod.splits option.splits)
  show "sorted_wrt (<) (map call_rank (new_calls s s'))"
    using assms
    by (auto simp: main_defs prog_defs new_calls_def
             split: sum.splits if_splits prod.splits option.splits)
  show "solver (ns s') = solver (ns s)" "threads (ns s') = threads (ns s)"
    "julia_env (ns s') = julia_env (ns s)"
    using assms
    by (auto simp: main_defs prog_defs
             split: sum.splits if_splits prod.splits option.splits)
  show "\<exists>cls runtime text rest.
            main_calls env (ns s') cls runtime text = new_calls s s' @ rest \<and>
            (r = Inr () \<longrightarrow>
               rest = [] \<and>
               get_launcher env (solver (ns s')) = Inr cls \<and>
               launch_scenario env
                 \<lparr>launcher_class = cls, l_start_date = start_date (ns s'),
                  l_end_date = end_date (ns s'), l_interval = interval (ns s'),
                  l_input_dir = input_dir (ns s'), l_threads = threads (ns s'),
                  l_julia_env = julia_env (ns s')\<rparr> = Inr runtime)"
    using assms
    by (auto simp: main_defs prog_defs new_calls_def make_launcher_def main_calls_def
             split: sum.splits if_splits prod.splits option.splits)
  show "(\<exists>d. CPklToCsv d \<in> set (new_calls s s')) \<longrightarrow>
            ensure_required_args (ns s') = Inr ()"
    using assms
    by (auto simp: main_defs prog_defs new_calls_def
             split: sum.splits if_splits prod.splits option.splits)
  show "(\<exists>f i. CInsertInFile f i ''status'' ''running'' \<in> set (new_calls s s')) \<longrightarrow>
            pkl_to_csv env (input_dir (ns s')) = Inr ()"
    using assms
    by (auto simp: main_defs prog_defs new_calls_def
             split: sum.splits if_splits prod.splits option.splits)
  show "(\<exists>v. CGetLauncher v \<in> set (new_calls s s')) \<longrightarrow>
            pkl_to_csv env (input_dir (ns s')) = Inr ()"
    using assms
    by (auto simp: main_defs prog_defs new_calls_def
             split: sum.splits if_splits prod.splits option.splits)
  show "\<forall>l. CNewLauncher l \<in> set (new_calls s s') \<longrightarrow>
            get_launcher env (solver (ns s')) = Inr (launcher_class l)"
    using assms
    by (auto simp: main_defs prog_defs new_calls_def make_launcher_def
             split: sum.splits if_splits prod.splits option.splits)
  show "\<forall>l. CLaunchScenario l \<in> set (new_calls s s') \<longrightarrow> new_launcher env l = None"
    using assms
    by (auto simp: main_defs prog_defs new_calls_def
             split: sum.splits if_splits prod.splits option.splits)
  show "\<forall>rt. CSec2hms rt \<in> set (new_calls s s') \<longrightarrow>
            (\<exists>l. CLaunchScenario l \<in> set (new_calls s s') \<and> launch_scenario env l = Inr rt)"
    using assms
    by (auto simp: main_defs prog_defs new_calls_def
             split: sum.splits if_splits prod.splits option.splits)
  show "\<forall>f i t. CInsertInFile f i ''runtime'' t \<in> set (new_calls s s') \<longrightarrow>
            (\<exists>rt hms h m sec. CSec2hms rt \<in> set (new_calls s s') \<and> sec2hms env rt = Inr hms \<and>
               unpack3 hms = Inr (h, m, sec) \<and> fmt_runtime h m = Inr t)"
    using assms
    by (auto simp: main_defs prog_defs new_calls_def
             split: sum.splits if_splits prod.splits option.splits)
qed

theorem main_call_order_witness:
  "fst (main example_env (initial scenario_args)) = Inr () \<and>
   sorted_wrt (<) (map call_rank
     (new_calls (initial scenario_args) (snd (main example_env (initial scenario_args))))) \<and>
   new_calls (initial scenario_args) (snd (main example_env (initial scenario_args))) =
     [CGetScenario (PStr ''87''),
      CPklToCsv (PStr ''/mnt/input/87''),
      CInsertInFile ''ExecuteList.csv'' (PStr ''87'') ''status'' ''running'',
      CGetLauncher (PStr ''gurobi''),
      CNewLauncher \<lparr>launcher_class = ''GurobiLauncher'', l_start_date = PStr ''2016-01-01'',
        l_end_date = PStr ''2016-01-07'', l_interval = PInt 24,
        l_input_dir = PStr ''/mnt/input/87'', l_threads = PInt 8, l_julia_env = PNone\<rparr>,
      CLaunchScenario \<lparr>launcher_class = ''GurobiLauncher'', l_start_date = PStr ''2016-01-01'',
        l_end_date = PStr ''2016-01-07'', l_interval = PInt 24,
        l_input_dir = PStr ''/mnt/input/87'', l_threads = PInt 8, l_julia_env = PNone\<rparr>,
      CInsertInFile ''ExecuteList.csv'' (PStr ''87'') ''status'' ''finished'',
      CSec2hms (PInt 3725),
      CInsertInFile ''ScenarioList.csv'' (PStr ''87'') ''runtime'' ''1:02'',
      CExtractScenario (PStr ''/mnt/input/87'') (PStr ''2016-01-01'') (PStr ''2016-01-07'')
        (PStr ''87'') (PStr ''/mnt/output'') (PBool False)]"
proof -
  have m: "main example_env (initial scenario_args) =
     (fst (main example_env (initial scenario_args)), snd (main example_env (initial scenario_args)))"
    by simp
  have a: "fst (main example_env (initial scenario_args)) = Inr ()"
    by (simp add: run_defs ensure_required_args_iff fmt_defs)
  have b: "new_calls (initial scenario_args) (snd (main example_env (initial scenario_args))) =
     [CGetScenario (PStr ''87''),
      CPklToCsv (PStr ''/mnt/input/87''),
      CInsertInFile ''ExecuteList.csv'' (PStr ''87'') ''status'' ''running'',
      CGetLauncher (PStr ''gurobi''),
      CNewLauncher \<lparr>launcher_class = ''GurobiLauncher'', l_start_date = PStr ''2016-01-01'',
        l_end_date = PStr ''2016-01-07'', l_interval = PInt 24,
        l_input_dir = PStr ''/mnt/input/87'', l_threads = PInt 8, l_julia_env = PNone\<rparr>,
      CLaunchScenario \<lparr>launcher_class = ''GurobiLauncher'', l_start_date = PStr ''2016-01-01'',
        l_end_date = PStr ''2016-01-07'', l_interval = PInt 24,
        l_input_dir = PStr ''/mnt/input/87'', l_threads = PInt 8, l_julia_env = PNone\<rparr>,
      CInsertInFile ''ExecuteList.csv'' (PStr ''87'') ''status'' ''finished'',
      CSec2hms (PInt 3725),
      CInsertInFile ''ScenarioList.csv'' (PStr ''87'') ''runtime'' ''1:02'',
      CExtractScenario (PStr ''/mnt/input/87'') (PStr ''2016-01-01'') (PStr ''2016-01-07'')
        (PStr ''87'') (PStr ''/mnt/output'') (PBool False)]"
    by (simp add: run_defs ensure_required_args_iff fmt_defs)
  from main_call_order [OF m]
  have c: "sorted_wrt (<) (map call_rank
     (new_calls (initial scenario_args) (snd (main example_env (initial scenario_args)))))"
    by blast
  from a b c show ?thesis
    by blast
qed

section \<open>Extraction\<close>

text \<open>
  Claim C6. In every run of \<open>main\<close>, \<open>extract_scenario\<close> is called only if the extraction
  flag is set, and when it is called it receives the input directory, the resolved start
  and end dates, the scenario id, the output directory and the keep-MATLAB flag of the
  namespace, and its outcome is the outcome of \<open>main\<close>. When the flag is set and \<open>main\<close>
  returns, the call has been made: with the flag set, the extractor is left uncalled
  only in a run that has raised before line 74. When the flag is not set the extractor
  is never called.
\<close>

theorem extraction_iff_flag:
  assumes "main env s = (r, s')"
  shows "(\<forall>i sd ed sid od k.
            CExtractScenario i sd ed sid od k \<in> set (new_calls s s') \<longrightarrow>
              truthy (extract_data (ns s)) \<and>
              i = input_dir (ns s') \<and> sd = start_date (ns s') \<and> ed = end_date (ns s') \<and>
              sid = scenario_id (ns s') \<and> od = output_dir (ns s') \<and> k = keep_matlab (ns s') \<and>
              r = extract_scenario env i sd ed sid od k) \<and>
         (truthy (extract_data (ns s)) \<and> r = Inr () \<longrightarrow>
            CExtractScenario (input_dir (ns s')) (start_date (ns s')) (end_date (ns s'))
              (scenario_id (ns s')) (output_dir (ns s')) (keep_matlab (ns s'))
              \<in> set (new_calls s s')) \<and>
         (\<not> truthy (extract_data (ns s)) \<longrightarrow>
            (\<forall>i sd ed sid od k. CExtractScenario i sd ed sid od k \<notin> set (new_calls s s')))"
  using assms
  by (auto simp: main_defs prog_defs new_calls_def
           split: sum.splits if_splits prod.splits option.splits)

theorem extraction_iff_flag_witness:
  "truthy (extract_data (ns (initial cli_args))) \<and>
   fst (main example_env (initial cli_args)) = Inr () \<and>
   CExtractScenario (PStr ''/home/user/case'') (PStr ''2016-01-01'') (PStr ''2016-01-07'')
       PNone (PStr ''/home/user/out'') (PBool False)
     \<in> set (new_calls (initial cli_args) (snd (main example_env (initial cli_args)))) \<and>
   \<not> truthy (extract_data (ns (initial (cli_args\<lparr>extract_data := PBool False\<rparr>)))) \<and>
   CExtractScenario (PStr ''/home/user/case'') (PStr ''2016-01-01'') (PStr ''2016-01-07'')
       PNone (PStr ''/home/user/out'') (PBool False)
     \<notin> set (new_calls (initial (cli_args\<lparr>extract_data := PBool False\<rparr>))
              (snd (main example_env (initial (cli_args\<lparr>extract_data := PBool False\<rparr>)))))"
proof -
  have m1: "main example_env (initial cli_args) =
     (fst (main example_env (initial cli_args)), snd (main example_env (initial cli_args)))"
    by simp
  have m2: "main example_env (initial (cli_args\<lparr>extract_data := PBool False\<rparr>)) =
     (fst (main example_env (initial (cli_args\<lparr>extract_data := PBool False\<rparr>))),
      snd (main example_env (initial (cli_args\<lparr>extract_data := PBool False\<rparr>))))"
    by simp
  have t1: "truthy (extract_data (ns (initial cli_args)))"
    and t2: "\<not> truthy (extract_data (ns (initial (cli_args\<lparr>extract_data := PBool False\<rparr>))))"
    by (simp_all add: example_defs)
  have r1: "fst (main example_env (initial cli_args)) = Inr ()"
    by (simp add: run_defs ensure_required_args_iff)
  have n1: "ns (snd (main example_env (initial cli_args))) = cli_args"
    by (simp add: run_defs ensure_required_args_iff)
  from extraction_iff_flag [OF m1] t1 r1
  have "CExtractScenario (input_dir (ns (snd (main example_env (initial cli_args)))))
          (start_date (ns (snd (main example_env (initial cli_args)))))
          (end_date (ns (snd (main example_env (initial cli_args)))))
          (scenario_id (ns (snd (main example_env (initial cli_args)))))
          (output_dir (ns (snd (main example_env (initial cli_args)))))
          (keep_matlab (ns (snd (main example_env (initial cli_args)))))
        \<in> set (new_calls (initial cli_args) (snd (main example_env (initial cli_args))))"
    by blast
  then have c1: "CExtractScenario (PStr ''/home/user/case'') (PStr ''2016-01-01'') (PStr ''2016-01-07'')
       PNone (PStr ''/home/user/out'') (PBool False)
     \<in> set (new_calls (initial cli_args) (snd (main example_env (initial cli_args))))"
    unfolding n1 by (simp add: cli_args_def)
  from extraction_iff_flag [OF m2] t2
  have c2: "CExtractScenario (PStr ''/home/user/case'') (PStr ''2016-01-01'') (PStr ''2016-01-07'')
       PNone (PStr ''/home/user/out'') (PBool False)
     \<notin> set (new_calls (initial (cli_args\<lparr>extract_data := PBool False\<rparr>))
              (snd (main example_env (initial (cli_args\<lparr>extract_data := PBool False\<rparr>)))))"
    by blast
  from t1 r1 c1 t2 c2 show ?thesis
    by blast
qed

end
